theory Spec2Isabelle
  imports Complex_Main "HOL-Library.Word"
begin

section \<open>Chunked file transfer over a publish/subscribe bus (file_transfer.py)\<close>

text \<open>
  The development embeds \<^verbatim>\<open>ChunkedFilePublisher.send_file\<close> and the message handlers of
  \<^verbatim>\<open>ChunkedFileSubscriber\<close>. Python integers are \<open>int\<close>, byte strings are lists of
  8-bit words, \<^verbatim>\<open>None\<close> is \<open>None\<close>, and every exception the handlers can raise on a
  well-typed payload is a value of \<open>py_error\<close>.

  \<^verbatim>\<open>hashlib.sha256(..).hexdigest()\<close> belongs to the Python library, not to the repository:
  every operation takes it as the parameter \<open>H\<close>, and the general theorems hold for every
  \<open>H\<close>. Feeding a hasher piecewise (\<^verbatim>\<open>update\<close>) digests the concatenation of the pieces.
\<close>

type_synonym byte = "8 word"

datatype py_error =
    FileNotFoundError | RuntimeError | ZeroDivisionError | ValueError
  | TypeError | OSError | IndexError

subsection \<open>Wire messages\<close>

text \<open>
  The manifest dictionary. A field the receiver reads with \<^verbatim>\<open>.get\<close>, or that JSON may
  carry as \<^verbatim>\<open>null\<close>, is optional; \<open>chunk_sha256\<close> is a list whose entries may be
  \<^verbatim>\<open>null\<close> themselves.
\<close>

record manifest =
  m_file_id :: string
  m_name :: "string option"
  m_size :: "int option"
  m_chunk_size :: "int option"
  m_total_chunks :: "int option"
  m_file_sha256 :: "string option"
  m_chunk_sha256 :: "string option list option"

text \<open>The chunk dictionary; \<open>c_data\<close> is the blob after \<^verbatim>\<open>bytes.fromhex\<close>.\<close>

record chunk =
  c_file_id :: string
  c_chunk_index :: int
  c_sha256 :: "string option"
  c_data :: "byte list"

text \<open>
  What a peer publishes, with the file id of the topic it is published on
  (\<^verbatim>\<open>FileTransferTopics\<close>): the sender publishes \<open>Meta\<close>, \<open>Chunk\<close> and the status probe,
  the receiver \<open>Status\<close> (file id, received count, total, missing, complete), \<open>Retry\<close>
  and \<open>Ack\<close>. Timestamps are left out.
\<close>

datatype wire =
    Meta manifest
  | Chunk chunk
  | StatusProbe string
  | Status string int "int option" "int list" bool
  | Retry string "int list"
  | Ack string

subsection \<open>Python helpers\<close>

text \<open>\<^verbatim>\<open>x or d\<close> on an optional integer: \<^verbatim>\<open>None\<close> and \<open>0\<close> are falsy.\<close>

definition int_or :: "int option \<Rightarrow> int \<Rightarrow> int" where
  "int_or x d = (case x of None \<Rightarrow> d | Some v \<Rightarrow> if v = 0 then d else v)"

text \<open>Truthiness of an optional string: \<^verbatim>\<open>None\<close> and the empty string are falsy.\<close>

definition truthy :: "string option \<Rightarrow> bool" where
  "truthy x = (case x of None \<Rightarrow> False | Some v \<Rightarrow> v \<noteq> [])"

text \<open>List subscript \<^verbatim>\<open>xs[i]\<close>: a negative index counts from the end.\<close>

definition py_index :: "'a list \<Rightarrow> int \<Rightarrow> py_error + 'a" where
  "py_index xs i =
     (if 0 \<le> i \<and> i < int (length xs) then Inr (xs ! nat i)
      else if i < 0 \<and> - int (length xs) \<le> i then Inr (xs ! nat (int (length xs) + i))
      else Inl IndexError)"

text \<open>\<^verbatim>\<open>os.path.basename\<close>: what follows the last slash.\<close>

definition basename :: "string \<Rightarrow> string" where
  "basename p = rev (takeWhile (\<lambda>c. c \<noteq> CHR ''/'') (rev p))"

subsection \<open>The sender: ChunkedFilePublisher.send_file\<close>

text \<open>
  \<^verbatim>\<open>MQTTPublisher\<close>: the connection flag and the messages handed to the bus client.
  \<^verbatim>\<open>publish\<close> returns without publishing when the publisher is not connected.
\<close>

record publisher =
  is_connected :: bool
  published :: "wire list"

definition publish :: "publisher \<Rightarrow> wire \<Rightarrow> publisher" where
  "publish p m = (if is_connected p then p\<lparr>published := published p @ [m]\<rparr> else p)"

text \<open>
  The loop \<^verbatim>\<open>while True: data = f.read(n); if not data: break; ...\<close> for a positive
  \<open>n\<close>: the successive blocks read from the remaining bytes.
\<close>

fun chunks_of :: "nat \<Rightarrow> 'a list \<Rightarrow> 'a list list" where
  "chunks_of n xs = (if n = 0 \<or> xs = [] then [] else take n xs # chunks_of n (drop n xs))"

declare chunks_of.simps [simp del]

text \<open>
  The same loop for any integer \<open>n\<close>: \<^verbatim>\<open>read(0)\<close> returns no data, \<^verbatim>\<open>read(-1)\<close> returns
  the rest of the file, and \<^verbatim>\<open>read(n)\<close> raises ValueError below \<open>-1\<close>.
\<close>

definition read_blocks :: "int \<Rightarrow> byte list \<Rightarrow> py_error + byte list list" where
  "read_blocks n content =
     (if n < - 1 then Inl ValueError
      else if n = - 1 then Inr (if content = [] then [] else [content])
      else Inr (chunks_of (nat n) content))"

text \<open>
  The second pass: one chunk message per block, \<^verbatim>\<open>index\<close> counting up from its start
  value, the digest looked up in the manifest's list.
\<close>

fun publish_chunks ::
  "publisher \<Rightarrow> string \<Rightarrow> string option list \<Rightarrow> int \<Rightarrow> byte list list \<Rightarrow> publisher \<times> py_error option"
where
  "publish_chunks pub fid hashes index [] = (pub, None)"
| "publish_chunks pub fid hashes index (d # ds) =
     (case py_index hashes index of
        Inl e \<Rightarrow> (pub, Some e)
      | Inr h \<Rightarrow>
          publish_chunks
            (publish pub (Chunk \<lparr>c_file_id = fid, c_chunk_index = index, c_sha256 = h, c_data = d\<rparr>))
            fid hashes (index + 1) ds)"

text \<open>
  \<^verbatim>\<open>send_file(file_path, chunk_size)\<close>. The environment is explicit: \<open>fs\<close> maps a path
  to the bytes of the regular file there, \<open>connect_ok\<close> is what \<^verbatim>\<open>connect()\<close> returns,
  \<open>fid\<close> is the id \<^verbatim>\<open>generate_file_id\<close> draws. The result is the publisher afterwards
  and the exception raised, if any.
\<close>

definition send_file ::
  "(byte list \<Rightarrow> string) \<Rightarrow> (string \<Rightarrow> byte list option) \<Rightarrow> bool \<Rightarrow> string \<Rightarrow>
   publisher \<Rightarrow> string \<Rightarrow> int \<Rightarrow> publisher \<times> py_error option"
where
  "send_file H fs connect_ok fid pub file_path chunk_size =
     (case fs file_path of
        None \<Rightarrow> (pub, Some FileNotFoundError)
      | Some content \<Rightarrow>
          if \<not> is_connected pub \<and> \<not> connect_ok then (pub, Some RuntimeError)
          else
            let pub1 = pub\<lparr>is_connected := True\<rparr>;
                total_size = int (length content)
            in if chunk_size = 0 then (pub1, Some ZeroDivisionError)
               else
                 let total_chunks = (total_size + chunk_size - 1) div chunk_size
                 in case read_blocks chunk_size content of
                      Inl e \<Rightarrow> (pub1, Some e)
                    | Inr blocks \<Rightarrow>
                        let chunk_hashes = map (\<lambda>d. Some (H d)) blocks;
                            man = \<lparr>m_file_id = fid,
                                   m_name = Some (basename file_path),
                                   m_size = Some total_size,
                                   m_chunk_size = Some chunk_size,
                                   m_total_chunks = Some total_chunks,
                                   m_file_sha256 = Some (H (concat blocks)),
                                   m_chunk_sha256 = Some chunk_hashes\<rparr>;
                            pub2 = publish pub1 (Meta man)
                        in case publish_chunks pub2 fid chunk_hashes 0 blocks of
                             (pub3, Some e) \<Rightarrow> (pub3, Some e)
                           | (pub3, None) \<Rightarrow> (publish pub3 (StatusProbe fid), None))"

subsection \<open>The receiver: ChunkedFileSubscriber\<close>

text \<open>The dictionary kept in \<^verbatim>\<open>state.json\<close>.\<close>

record rstate =
  s_file_id :: string
  s_name :: "string option"
  s_size :: "int option"
  s_chunk_size :: "int option"
  s_total_chunks :: "int option"
  s_file_sha256 :: "string option"
  s_chunk_sha256 :: "string option list option"
  s_received :: "int list"
  s_complete :: bool
  s_ack_sent :: bool

text \<open>
  What the receiver owns: \<open>states fid\<close> is the content of
  \<^verbatim>\<open><root>/<fid>/state.json\<close> (\<open>None\<close> when the file does not exist), \<open>files (fid, name)\<close>
  the bytes of the data file \<^verbatim>\<open><root>/<fid>/<name>\<close>, and \<open>outbox\<close> the messages handed to
  the bus client, oldest first. A data file name is a plain file name other than
  \<^verbatim>\<open>state.json\<close>; creating the directory of a file id is not recorded.
\<close>

record store =
  states :: "string \<Rightarrow> rstate option"
  files :: "string \<times> string \<Rightarrow> byte list option"
  outbox :: "wire list"

definition init_store :: store where
  "init_store = \<lparr>states = (\<lambda>_. None), files = (\<lambda>_. None), outbox = []\<rparr>"

definition default_state :: "string \<Rightarrow> rstate" where
  "default_state fid =
     \<lparr>s_file_id = fid, s_name = None, s_size = None, s_chunk_size = None,
      s_total_chunks = None, s_file_sha256 = None, s_chunk_sha256 = None,
      s_received = [], s_complete = False, s_ack_sent = False\<rparr>"

definition load_state :: "store \<Rightarrow> string \<Rightarrow> rstate" where
  "load_state s fid = (case states s fid of Some st \<Rightarrow> st | None \<Rightarrow> default_state fid)"

definition save_state :: "store \<Rightarrow> rstate \<Rightarrow> store" where
  "save_state s st = s\<lparr>states := (states s)(s_file_id st \<mapsto> st)\<rparr>"

text \<open>\<^verbatim>\<open>missing = [i for i in range(total) if i not in have]\<close>, empty without a total.\<close>

definition missing_of :: "rstate \<Rightarrow> int list" where
  "missing_of st =
     (case s_total_chunks st of
        None \<Rightarrow> []
      | Some tot \<Rightarrow> filter (\<lambda>i. i \<notin> set (s_received st)) [0..tot - 1])"

definition emit_status :: "store \<Rightarrow> string \<Rightarrow> store" where
  "emit_status s fid =
     (let st = load_state s fid;
          missing = missing_of st;
          payload = Status fid (int (length (s_received st))) (s_total_chunks st)
                      (take 500 missing) (s_complete st)
      in s\<lparr>outbox := outbox s @ [payload] @
                        (if missing \<noteq> [] then [Retry fid (take 500 missing)] else [])\<rparr>)"

definition emit_ack :: "store \<Rightarrow> string \<Rightarrow> store" where
  "emit_ack s fid =
     (let st = load_state s fid
      in if s_ack_sent st then s
         else save_state (s\<lparr>outbox := outbox s @ [Ack fid]\<rparr>) (st\<lparr>s_ack_sent := True\<rparr>))"

definition handle_meta :: "store \<Rightarrow> manifest \<Rightarrow> store" where
  "handle_meta s meta =
     (let st = load_state s (m_file_id meta);
          st1 = st\<lparr>s_name := m_name meta, s_size := m_size meta,
                   s_chunk_size := m_chunk_size meta, s_total_chunks := m_total_chunks meta,
                   s_file_sha256 := m_file_sha256 meta, s_chunk_sha256 := m_chunk_sha256 meta\<rparr>
      in emit_status (save_state s st1) (m_file_id meta))"

text \<open>
  Writing \<open>blob\<close> at offset \<open>off\<close> of a file opened \<^verbatim>\<open>r+b\<close>: a gap past the end is filled
  with zero bytes, and writing no bytes leaves the file as it is.
\<close>

definition write_at :: "byte list \<Rightarrow> nat \<Rightarrow> byte list \<Rightarrow> byte list" where
  "write_at content off blob =
     (if blob = [] then content
      else take off content @ replicate (off - length content) 0 @ blob @
           drop (off + length blob) content)"

definition read_file :: "store \<Rightarrow> string \<times> string \<Rightarrow> byte list" where
  "read_file s p = (case files s p of None \<Rightarrow> [] | Some b \<Rightarrow> b)"

text \<open>
  Lines 222-231 of \<^verbatim>\<open>_handle_chunk\<close>: \<open>Inr True\<close> when the chunk passes (or is not
  checked), \<open>Inr False\<close> on a digest mismatch, \<open>Inl\<close> when the subscript raises.
\<close>

definition chunk_hash_ok ::
  "(byte list \<Rightarrow> string) \<Rightarrow> rstate \<Rightarrow> int \<Rightarrow> byte list \<Rightarrow> py_error + bool"
where
  "chunk_hash_ok H st idx blob =
     (case s_chunk_sha256 st of
        None \<Rightarrow> Inr True
      | Some hashes \<Rightarrow>
          if hashes \<noteq> [] \<and> idx < int (length hashes) then
            (case py_index hashes idx of
               Inl e \<Rightarrow> Inl e
             | Inr expected \<Rightarrow> Inr (\<not> (truthy expected \<and> Some (H blob) \<noteq> expected)))
          else Inr True)"

text \<open>
  The whole-file digest of lines 245-249: the file is read in blocks of
  \<^verbatim>\<open>state["chunk_size"] or 1024 * 1024\<close> bytes, which raises when that size is below \<open>-1\<close>.
\<close>

definition hash_file :: "(byte list \<Rightarrow> string) \<Rightarrow> int option \<Rightarrow> byte list \<Rightarrow> py_error + string" where
  "hash_file H cs content =
     (case read_blocks (int_or cs (1024 * 1024)) content of
        Inl e \<Rightarrow> Inl e
      | Inr blocks \<Rightarrow> Inr (H (concat blocks)))"

text \<open>
  Lines 237-265 of \<^verbatim>\<open>_handle_chunk\<close>, entered with the state just saved: the completion
  check with the whole-file verification (an exception inside the \<^verbatim>\<open>try\<close> is caught and
  answered with a status), or else the periodic status.
\<close>

definition completion_check ::
  "(byte list \<Rightarrow> string) \<Rightarrow> store \<Rightarrow> rstate \<Rightarrow> string \<Rightarrow> string \<times> string \<Rightarrow> store"
where
  "completion_check H s st file_id data_path =
     (if (case s_total_chunks st of
            None \<Rightarrow> False
          | Some tot \<Rightarrow> tot \<le> int (length (s_received st)) \<and> \<not> s_complete st)
      then
        let st1 = st\<lparr>s_complete := True\<rparr>;
            s1 = save_state s st1
        in case hash_file H (s_chunk_size st1) (read_file s1 data_path) of
             Inl e \<Rightarrow> emit_status s1 file_id
           | Inr actual_file_hash \<Rightarrow>
               if truthy (s_file_sha256 st1) \<and> Some actual_file_hash \<noteq> s_file_sha256 st1
               then emit_status (save_state s1 (st1\<lparr>s_complete := False\<rparr>)) file_id
               else emit_ack s1 file_id
      else if length (s_received st) mod 50 = 0 then emit_status s file_id else s)"

text \<open>
  \<^verbatim>\<open>_handle_chunk\<close>. The data path is built from \<^verbatim>\<open>state.get("name", ..)\<close>; the key is
  always present, so without a manifest the name is \<^verbatim>\<open>None\<close> and joining it to the
  directory raises TypeError before anything is written. A negative seek position raises
  OSError after the data file has been created. The result is the store when the handler
  ends and the exception that left it, if any.
\<close>

definition handle_chunk ::
  "(byte list \<Rightarrow> string) \<Rightarrow> store \<Rightarrow> chunk \<Rightarrow> store \<times> py_error option"
where
  "handle_chunk H s c =
     (let file_id = c_file_id c; idx = c_chunk_index c; blob = c_data c;
          st = load_state s file_id
      in case s_name st of
           None \<Rightarrow> (s, Some TypeError)
         | Some name \<Rightarrow>
             let data_path = (file_id, name);
                 s1 = (if files s data_path = None
                       then s\<lparr>files := (files s)(data_path \<mapsto> [])\<rparr> else s);
                 pos = idx * int_or (s_chunk_size st) (int (length blob))
             in if pos < 0 then (s1, Some OSError)
                else
                  let s2 = s1\<lparr>files := (files s1)(data_path \<mapsto>
                                  write_at (read_file s1 data_path) (nat pos) blob)\<rparr>
                  in case chunk_hash_ok H st idx blob of
                       Inl e \<Rightarrow> (s2, Some e)
                     | Inr False \<Rightarrow> (emit_status s2 file_id, None)
                     | Inr True \<Rightarrow>
                         let st1 = (if idx \<in> set (s_received st) then st
                                    else st\<lparr>s_received := s_received st @ [idx]\<rparr>);
                             s3 = save_state s2 st1
                         in (completion_check H s3 st1 file_id data_path, None))"

text \<open>
  An inbound message as \<^verbatim>\<open>_on_message\<close> dispatches it on the last topic segment: a
  manifest, a chunk, anything on the status topic of a file id, or a message that is
  ignored (another kind, or a payload that is not JSON). An exception of a handler is
  caught and logged by the bus client's callback, so the store stays as the handler
  left it.
\<close>

datatype inbound = InMeta manifest | InChunk chunk | InStatus string | InIgnored

fun on_message :: "(byte list \<Rightarrow> string) \<Rightarrow> store \<Rightarrow> inbound \<Rightarrow> store" where
  "on_message H s (InMeta meta) = handle_meta s meta"
| "on_message H s (InChunk c) = fst (handle_chunk H s c)"
| "on_message H s (InStatus fid) = emit_status s fid"
| "on_message H s InIgnored = s"

text \<open>Processing inbound messages in arrival order.\<close>

definition run :: "(byte list \<Rightarrow> string) \<Rightarrow> store \<Rightarrow> inbound list \<Rightarrow> store" where
  "run H s msgs = foldl (on_message H) s msgs"

text \<open>How the bus hands a message of the sender to the receiver.\<close>

fun deliver :: "wire \<Rightarrow> inbound" where
  "deliver (Meta m) = InMeta m"
| "deliver (Chunk c) = InChunk c"
| "deliver (StatusProbe fid) = InStatus fid"
| "deliver (Status fid n t ms c) = InStatus fid"
| "deliver (Retry fid ms) = InIgnored"
| "deliver (Ack fid) = InIgnored"

text \<open>The acks published for a file id, and the persisted fields of a file id.\<close>

definition acks :: "string \<Rightarrow> store \<Rightarrow> wire list" where
  "acks fid s = filter (\<lambda>m. m = Ack fid) (outbox s)"

definition received_of :: "store \<Rightarrow> string \<Rightarrow> int list" where
  "received_of s fid = s_received (load_state s fid)"

text \<open>
  A stand-in digest for evaluating concrete runs: the bytes themselves, as characters.
  Like SHA-256 on the inputs used below, it gives different byte strings different digests.
\<close>

definition plain_digest :: "byte list \<Rightarrow> string" where
  "plain_digest bs = map (\<lambda>b. char_of (unat b)) bs"

subsection \<open>Notions used in the statements\<close>

text \<open>
  Every \<^verbatim>\<open>state.json\<close> carries the file id of its own directory. The handlers keep it
  so, since a state is always saved under the id it carries.
\<close>

definition wf_store :: "store \<Rightarrow> bool" where
  "wf_store s = (\<forall>fid st. states s fid = Some st \<longrightarrow> s_file_id st = fid)"


text \<open>
  What the ack flag and the published acks of a file id satisfy together: the flag
  implies completion, there is at most one ack, and an ack implies the flag.
\<close>

definition ack_inv :: "string \<Rightarrow> store \<Rightarrow> bool" where
  "ack_inv fid s =
     ((s_ack_sent (load_state s fid) \<longrightarrow> s_complete (load_state s fid)) \<and>
      length (acks fid s) \<le> 1 \<and>
      (acks fid s \<noteq> [] \<longrightarrow> s_ack_sent (load_state s fid)))"

text \<open>
  A transfer used to evaluate the handlers: the file \<^verbatim>\<open>a.bin\<close> with the two bytes 1 and 2,
  sent as two chunks of one byte under the file id \<^verbatim>\<open>f\<close>.
\<close>

definition demo_manifest :: manifest where
  "demo_manifest =
     \<lparr>m_file_id = ''f'', m_name = Some ''a.bin'', m_size = Some 2, m_chunk_size = Some 1,
      m_total_chunks = Some 2, m_file_sha256 = Some (plain_digest [1, 2]),
      m_chunk_sha256 = Some [Some (plain_digest [1]), Some (plain_digest [2])]\<rparr>"

definition demo_chunk :: "int \<Rightarrow> byte list \<Rightarrow> chunk" where
  "demo_chunk i bs = \<lparr>c_file_id = ''f'', c_chunk_index = i, c_sha256 = None, c_data = bs\<rparr>"



text \<open>
  A file system and a publisher used to evaluate \<^verbatim>\<open>send_file\<close>: a file of three bytes, an
  empty file, and a publisher that has not connected yet.
\<close>

definition demo_fs :: "string \<Rightarrow> byte list option" where
  "demo_fs p = (if p = ''d/a.bin'' then Some [1, 2, 3]
                else if p = ''d/e.bin'' then Some [] else None)"

definition fresh_publisher :: publisher where
  "fresh_publisher = \<lparr>is_connected = False, published = []\<rparr>"

section \<open>Basic facts about the store\<close>

lemma run_Nil [simp]: "run H s [] = s"
  by (simp add: run_def)

lemma run_snoc [simp]: "run H s (msgs @ [m]) = on_message H (run H s msgs) m"
  by (simp add: run_def)

lemma wf_init [simp]: "wf_store init_store"
  by (simp add: wf_store_def init_store_def)

lemma load_state_file_id [simp]: "wf_store s \<Longrightarrow> s_file_id (load_state s fid) = fid"
  by (auto simp: wf_store_def load_state_def default_state_def split: option.splits)

lemma load_state_save [simp]:
  "load_state (save_state s st) fid = (if fid = s_file_id st then st else load_state s fid)"
  by (simp add: load_state_def save_state_def)

lemma load_state_outbox_update [simp]: "load_state (s\<lparr>outbox := x\<rparr>) fid = load_state s fid"
  by (simp add: load_state_def)

lemma load_state_files_update [simp]: "load_state (s\<lparr>files := x\<rparr>) fid = load_state s fid"
  by (simp add: load_state_def)

lemma load_state_emit_status [simp]: "load_state (emit_status s f) fid = load_state s fid"
  by (simp add: emit_status_def Let_def)

lemma wf_save [simp]: "wf_store s \<Longrightarrow> wf_store (save_state s st)"
  by (simp add: wf_store_def save_state_def)

lemma wf_outbox_update [simp]: "wf_store (s\<lparr>outbox := x\<rparr>) = wf_store s"
  by (simp add: wf_store_def)

lemma wf_files_update [simp]: "wf_store (s\<lparr>files := x\<rparr>) = wf_store s"
  by (simp add: wf_store_def)

lemma wf_emit_status [simp]: "wf_store (emit_status s f) = wf_store s"
  by (simp add: emit_status_def Let_def)

lemma wf_emit_ack [simp]: "wf_store s \<Longrightarrow> wf_store (emit_ack s f)"
  by (simp add: emit_ack_def Let_def)

lemma wf_handle_meta [simp]: "wf_store s \<Longrightarrow> wf_store (handle_meta s m)"
  by (simp add: handle_meta_def Let_def)

lemma wf_completion_check [simp]: "wf_store s \<Longrightarrow> wf_store (completion_check H s st f p)"
  by (simp add: completion_check_def Let_def split: sum.splits)

lemma wf_handle_chunk [simp]: "wf_store s \<Longrightarrow> wf_store (fst (handle_chunk H s c))"
  by (simp add: handle_chunk_def Let_def split: option.splits sum.splits bool.splits)

lemma wf_on_message [simp]: "wf_store s \<Longrightarrow> wf_store (on_message H s m)"
  by (cases m) simp_all

lemma wf_run [simp]: "wf_store s \<Longrightarrow> wf_store (run H s msgs)"
  by (induction msgs rule: rev_induct) simp_all

subsection \<open>Acks, files and states under the handlers\<close>

lemma acks_save [simp]: "acks fid (save_state s st) = acks fid s"
  by (simp add: acks_def save_state_def)

lemma acks_files_update [simp]: "acks fid (s\<lparr>files := x\<rparr>) = acks fid s"
  by (simp add: acks_def)

lemma acks_emit_status [simp]: "acks fid (emit_status s f) = acks fid s"
  by (simp add: acks_def emit_status_def Let_def)



lemma files_save [simp]: "files (save_state s st) = files s"
  by (simp add: save_state_def)

lemma files_emit_status [simp]: "files (emit_status s f) = files s"
  by (simp add: emit_status_def Let_def)

lemma files_emit_ack [simp]: "files (emit_ack s f) = files s"
  by (simp add: emit_ack_def Let_def)

lemma files_completion_check [simp]: "files (completion_check H s st f p) = files s"
  by (simp add: completion_check_def Let_def split: sum.splits)

lemma files_handle_meta [simp]: "files (handle_meta s m) = files s"
  by (simp add: handle_meta_def Let_def)








lemma ack_inv_files_update [simp]: "ack_inv fid (s\<lparr>files := x\<rparr>) = ack_inv fid s"
  by (simp add: ack_inv_def)

lemma ack_inv_emit_status [simp]: "ack_inv fid (emit_status s f) = ack_inv fid s"
  by (simp add: ack_inv_def)







subsection \<open>The completion check\<close>


lemma read_file_save [simp]: "read_file (save_state s st) p = read_file s p"
  by (simp add: read_file_def)














subsection \<open>The received list\<close>

lemma acks_handle_meta [simp]: "acks fid (handle_meta s m) = acks fid s"
  by (simp add: handle_meta_def Let_def)

lemma complete_handle_meta [simp]:
  "wf_store s \<Longrightarrow> s_complete (load_state (handle_meta s m) fid) = s_complete (load_state s fid)"
  by (simp add: handle_meta_def Let_def)

lemma received_handle_meta [simp]:
  "wf_store s \<Longrightarrow> received_of (handle_meta s m) fid = received_of s fid"
  by (simp add: handle_meta_def Let_def received_of_def)

lemma received_emit_status [simp]: "received_of (emit_status s f) fid = received_of s fid"
  by (simp add: received_of_def)



section \<open>The sender's blocks\<close>









section \<open>Status emission\<close>

lemma missing_of_sorted: "sorted_wrt (<) (missing_of st)"
  by (simp add: missing_of_def sorted_wrt_filter split: option.splits)

text \<open>
  Claim C10. Every status emission appends one status message, followed by a retry
  request exactly when the computed missing list is non-empty. The missing list is
  strictly ascending and both messages carry its first 500 elements. Without a manifest
  (total unknown) the missing list is empty: the status carries total = null and an empty
  list, and no retry request is published. Emitting a status changes neither the
  persisted states nor the data files.
\<close>

theorem emit_status_retry_iff_missing:
  "outbox (emit_status s fid) =
     outbox s @
     Status fid (int (length (s_received (load_state s fid)))) (s_total_chunks (load_state s fid))
       (take 500 (missing_of (load_state s fid))) (s_complete (load_state s fid)) #
     (if missing_of (load_state s fid) = [] then []
      else [Retry fid (take 500 (missing_of (load_state s fid)))])
   \<and> ((\<exists>ms. Retry fid ms \<in> set (drop (length (outbox s)) (outbox (emit_status s fid))))
        \<longleftrightarrow> missing_of (load_state s fid) \<noteq> [])
   \<and> sorted_wrt (<) (missing_of (load_state s fid))
   \<and> (s_total_chunks (load_state s fid) = None \<longrightarrow>
        missing_of (load_state s fid) = [] \<and>
        outbox (emit_status s fid) =
          outbox s @ [Status fid (int (length (s_received (load_state s fid)))) None []
                        (s_complete (load_state s fid))])
   \<and> states (emit_status s fid) = states s \<and> files (emit_status s fid) = files s"
proof (intro conjI)
  show "sorted_wrt (<) (missing_of (load_state s fid))"
    by (rule missing_of_sorted)
  show "s_total_chunks (load_state s fid) = None \<longrightarrow>
        missing_of (load_state s fid) = [] \<and>
        outbox (emit_status s fid) =
          outbox s @ [Status fid (int (length (s_received (load_state s fid)))) None []
                        (s_complete (load_state s fid))]"
    by (simp add: emit_status_def Let_def missing_of_def)
qed (auto simp: emit_status_def Let_def)

theorem emit_status_retry_iff_missing_witness:
  "s_total_chunks (load_state init_store ''f'') = None \<and>
   outbox (emit_status init_store ''f'') = [Status ''f'' 0 None [] False]"
  using emit_status_retry_iff_missing [of init_store "''f''"]
  by (simp add: init_store_def load_state_def default_state_def)

section \<open>Chunks that arrive before the manifest\<close>



section \<open>The ack\<close>




section \<open>The received list\<close>




section \<open>The complete flag\<close>




section \<open>A corrupted duplicate, and the whole-file mismatch\<close>

text \<open>
  Claim C9 at a failing input. The handler writes the blob into the data file before it
  compares the chunk digest. In the demo transfer, chunk 0 arrives with its bytes, then
  once more with the byte 9: the duplicate fails the digest comparison and is not added
  again, but index 0 stays in received while the data file now holds 9 where the source
  file holds 1.
\<close>

theorem corrupt_duplicate_overwrites_received_chunk:
  "received_of (run plain_digest init_store
      [InMeta demo_manifest, InChunk (demo_chunk 0 [1]), InChunk (demo_chunk 0 [9])]) ''f'' = [0] \<and>
   files (run plain_digest init_store
      [InMeta demo_manifest, InChunk (demo_chunk 0 [1])]) (''f'', ''a.bin'') = Some [1] \<and>
   files (run plain_digest init_store
      [InMeta demo_manifest, InChunk (demo_chunk 0 [1]), InChunk (demo_chunk 0 [9])])
      (''f'', ''a.bin'') = Some [9]"
  by code_simp

text \<open>
  Claim C5 at a failing input. The demo transfer with the corrupted duplicate of chunk 0
  goes on with chunk 1: both indices are received, the whole-file digest differs from the
  manifest's, complete is cleared and a status is published. Its missing list is computed
  from received and is empty, so no retry request follows: the last message published is
  that status, and the only retry requests are the earlier ones for the missing chunks.
\<close>

theorem whole_file_mismatch_sends_no_retry:
  "outbox (run plain_digest init_store
      [InMeta demo_manifest, InChunk (demo_chunk 0 [1]), InChunk (demo_chunk 0 [9]),
       InChunk (demo_chunk 1 [2])]) =
     [Status ''f'' 0 (Some 2) [0, 1] False, Retry ''f'' [0, 1],
      Status ''f'' 1 (Some 2) [1] False, Retry ''f'' [1],
      Status ''f'' 2 (Some 2) [] False] \<and>
   \<not> s_complete (load_state (run plain_digest init_store
      [InMeta demo_manifest, InChunk (demo_chunk 0 [1]), InChunk (demo_chunk 0 [9]),
       InChunk (demo_chunk 1 [2])]) ''f'') \<and>
   files (run plain_digest init_store
      [InMeta demo_manifest, InChunk (demo_chunk 0 [1]), InChunk (demo_chunk 0 [9]),
       InChunk (demo_chunk 1 [2])]) (''f'', ''a.bin'') = Some [9, 2]"
  by code_simp

section \<open>Sending a file\<close>



text \<open>
  Claim C6, as stated, fails: nothing validates chunk_size. With chunk_size = -1 the
  reads return the whole file at once, and send_file publishes a manifest (with
  total_chunks -1), the file as a single chunk, and the status probe, and returns without
  an error.
\<close>

theorem send_file_negative_chunk_size_counterexample:
  "snd (send_file plain_digest demo_fs True ''f'' fresh_publisher ''d/a.bin'' (- 1)) = None \<and>
   published (fst (send_file plain_digest demo_fs True ''f'' fresh_publisher ''d/a.bin'' (- 1))) =
     [Meta \<lparr>m_file_id = ''f'', m_name = Some ''a.bin'', m_size = Some 3,
            m_chunk_size = Some (- 1), m_total_chunks = Some (- 1),
            m_file_sha256 = Some (plain_digest [1, 2, 3]),
            m_chunk_sha256 = Some [Some (plain_digest [1, 2, 3])]\<rparr>,
      Chunk \<lparr>c_file_id = ''f'', c_chunk_index = 0, c_sha256 = Some (plain_digest [1, 2, 3]),
             c_data = [1, 2, 3]\<rparr>,
      StatusProbe ''f'']"
  by code_simp

text \<open>
  Claim C6, amended. If the file does not exist at the given path, or chunk_size is 0,
  or chunk_size is at most -2, then send_file fails with an error to the caller and
  publishes no message.
\<close>

theorem send_file_fails_without_publishing:
  assumes "fs file_path = None \<or> chunk_size = 0 \<or> chunk_size < - 1"
  shows "snd (send_file H fs connect_ok fid pub file_path chunk_size) \<noteq> None \<and>
         published (fst (send_file H fs connect_ok fid pub file_path chunk_size)) = published pub"
  using assms
  by (auto simp: send_file_def Let_def read_blocks_def split: option.splits)

theorem send_file_fails_without_publishing_witness:
  "snd (send_file plain_digest demo_fs True ''f'' fresh_publisher ''d/a.bin'' 0) =
     Some ZeroDivisionError \<and>
   published (fst (send_file plain_digest demo_fs True ''f'' fresh_publisher ''d/a.bin'' 0)) = []"
proof -
  have h: "demo_fs ''d/a.bin'' = None \<or> (0::int) = 0 \<or> (0::int) < - 1" by simp
  have e: "snd (send_file plain_digest demo_fs True ''f'' fresh_publisher ''d/a.bin'' 0) =
     Some ZeroDivisionError"
    by code_simp
  from send_file_fails_without_publishing
         [where fs = demo_fs and file_path = "''d/a.bin''" and chunk_size = 0
            and pub = fresh_publisher and connect_ok = True and H = plain_digest
            and fid = "''f''", OF h] e
  show ?thesis by (simp add: fresh_publisher_def)
qed

section \<open>An empty file\<close>

text \<open>
  Claim C7 at a failing input. Sending the empty file publishes the manifest with
  total_chunks 0 and the status probe, and no chunk. The receiver answers both with a
  status; the completion check lives in the chunk handler only, so with no chunk to come
  no ack is ever published and ack_sent stays false.
\<close>

theorem empty_file_is_never_acked:
  "published (fst (send_file plain_digest demo_fs True ''f'' fresh_publisher ''d/e.bin'' 4)) =
     [Meta \<lparr>m_file_id = ''f'', m_name = Some ''e.bin'', m_size = Some 0, m_chunk_size = Some 4,
            m_total_chunks = Some 0, m_file_sha256 = Some (plain_digest []),
            m_chunk_sha256 = Some []\<rparr>,
      StatusProbe ''f''] \<and>
   outbox (run plain_digest init_store (map deliver
      (published (fst (send_file plain_digest demo_fs True ''f'' fresh_publisher ''d/e.bin'' 4))))) =
     [Status ''f'' 0 (Some 0) [] False, Status ''f'' 0 (Some 0) [] False] \<and>
   acks ''f'' (run plain_digest init_store (map deliver
      (published (fst (send_file plain_digest demo_fs True ''f'' fresh_publisher ''d/e.bin'' 4))))) = [] \<and>
   \<not> s_ack_sent (load_state (run plain_digest init_store (map deliver
      (published (fst (send_file plain_digest demo_fs True ''f'' fresh_publisher ''d/e.bin'' 4))))) ''f'')"
  by code_simp

end
